theory Spec2Isabelle
  imports Complex_Main "HOL-Library.Word" "HOL-Library.Signed_Division" "HOL-Library.Stream"
begin

section \<open>Go primitives used by the runner\<close>

text \<open>
  Go's \<^verbatim>\<open>int\<close> is modelled as a 64-bit word (amd64/arm64): \<open>+\<close> and \<open>-\<close> wrap around,
  comparisons read the word as two's complement through \<open>sint\<close>. A run-time panic is a
  value of type \<open>panic\<close>; a Go \<^verbatim>\<open>error\<close> is a value of type \<open>go_error\<close>.
\<close>

type_synonym go_int = "64 word"

datatype panic =
    DivideByZero
  | IntnInvalidArgument
  | NilPointerDereference
  | MakeChanSizeOutOfRange

datatype go_error =
    UndefinedVariable string
  | UnsupportedStrategy string
  | NewRequestError string
  | TransportError string

text \<open>Integer division \<^verbatim>\<open>a / b\<close>: panics on a zero divisor, truncates towards zero.\<close>

definition go_quo :: "go_int \<Rightarrow> go_int \<Rightarrow> panic + go_int" where
  "go_quo a b = (if b = 0 then Inl DivideByZero else Inr (word_of_int (sint a sdiv sint b)))"

text \<open>\<^verbatim>\<open>strconv.Itoa\<close>: the decimal text of an int.\<close>

fun digits :: "nat \<Rightarrow> string" where
  "digits n = (if n < 10 then [''0123456789'' ! n]
               else digits (n div 10) @ [''0123456789'' ! (n mod 10)])"

declare digits.simps [simp del]

definition Itoa :: "go_int \<Rightarrow> string" where
  "Itoa i = (if sint i < 0 then CHR ''-'' # digits (nat (- sint i)) else digits (nat (sint i)))"

text \<open>
  \<^verbatim>\<open>strings.ReplaceAll(s, old, new)\<close> for a non-empty \<open>old\<close> (the runner only calls it with
  the two literals \<^verbatim>\<open>{{$index}}\<close> and \<^verbatim>\<open>{{$random}}\<close>): leftmost, non-overlapping.
\<close>

function ReplaceAll :: "string \<Rightarrow> string \<Rightarrow> string \<Rightarrow> string" where
  "ReplaceAll s old new =
     (if s = [] \<or> old = [] then s
      else if take (length old) s = old then new @ ReplaceAll (drop (length old) s) old new
      else hd s # ReplaceAll (tl s) old new)"
  by pat_completeness auto
termination
  by (relation "measure (\<lambda>(s, old, new). length s)") (auto simp: neq_Nil_conv)

declare ReplaceAll.simps [simp del]

text \<open>
  \<^verbatim>\<open>(*rand.Rand).Intn(n)\<close>: panics when \<open>n \<le> 0\<close>, otherwise a number in \<open>[0, n)\<close>. The
  pseudo-random source is a stream of raw draws; which number comes out is left to the
  stream, only the range is fixed.
\<close>

definition Intn :: "nat stream \<Rightarrow> go_int \<Rightarrow> panic + (go_int \<times> nat stream)" where
  "Intn r n = (if sint n \<le> 0 then Inl IntnInvalidArgument
               else Inr (word_of_int (int (shd r) mod sint n), stl r))"

section \<open>float64\<close>

text \<open>
  A finite \<^verbatim>\<open>float64\<close> is \<open>Finite m e\<close>, the number \<open>m * 2\<^sup>e\<close>; the other values are the two
  infinities and NaN. Every operation gives the double nearest to the exact result, ties
  going to the even significand of 53 bits (IEEE 754, the rounding Go uses). The range of
  the exponent and the sign of zero are not modelled: the runner only converts int64
  values and divides, multiplies and adds them (a sum has at most \<open>2\<^sup>6\<^sup>3\<close> terms, each below
  \<open>2\<^sup>4\<^sup>4\<close>), so no result comes near the largest or the smallest double, and no negative
  zero arises.
\<close>

datatype float64 = Finite int int | PosInf | NegInf | NaN

text \<open>The number of binary digits of a natural number.\<close>

fun bits :: "nat \<Rightarrow> nat" where
  "bits n = (if n = 0 then 0 else Suc (bits (n div 2)))"

declare bits.simps [simp del]

text \<open>
  The double nearest to \<open>p / q\<close> for positive \<open>p\<close> and \<open>q\<close>, as significand and exponent:
  the quotient is scaled to 54 or 55 binary digits, cut to 53, and rounded on the digits
  cut off and on the remainder of the division.
\<close>

definition round_ratio :: "nat \<Rightarrow> nat \<Rightarrow> int \<times> int" where
  "round_ratio p q =
     (let e = int (bits p) - int (bits q) - 54;
          num = (if e < 0 then p * 2 ^ nat (- e) else p);
          den = (if e < 0 then q else q * 2 ^ nat e);
          t = num div den;
          r = num mod den;
          k = bits t - 53;
          m0 = t div 2 ^ k;
          rem = t mod 2 ^ k;
          half = 2 ^ (k - 1);
          up = (rem > half \<or> (rem = half \<and> (r \<noteq> 0 \<or> odd m0)))
      in (int (if up then m0 + 1 else m0), e + int k))"

text \<open>The double nearest to \<open>(p / q) * 2\<^sup>x\<close>, for an integer \<open>p\<close> and a positive \<open>q\<close>.\<close>

definition nearest :: "int \<Rightarrow> nat \<Rightarrow> int \<Rightarrow> float64" where
  "nearest p q x =
     (if p = 0 then Finite 0 0
      else case round_ratio (nat \<bar>p\<bar>) q of (m, e) \<Rightarrow> Finite (sgn p * m) (e + x))"

text \<open>The conversion \<^verbatim>\<open>float64(k)\<close> of an integer: exact below \<open>2\<^sup>5\<^sup>3\<close>.\<close>

definition f64_of_int :: "int \<Rightarrow> float64" where
  "f64_of_int k = (if \<bar>k\<bar> < 9007199254740992 then Finite k 0 else nearest k 1 0)"

fun f64_div :: "float64 \<Rightarrow> float64 \<Rightarrow> float64" where
  "f64_div (Finite m1 e1) (Finite m2 e2) =
     (if m2 = 0 then (if m1 = 0 then NaN else if 0 < m1 then PosInf else NegInf)
      else nearest (sgn m2 * m1) (nat \<bar>m2\<bar>) (e1 - e2))"
| "f64_div (Finite m1 e1) PosInf = Finite 0 0"
| "f64_div (Finite m1 e1) NegInf = Finite 0 0"
| "f64_div PosInf (Finite m2 e2) = (if 0 \<le> m2 then PosInf else NegInf)"
| "f64_div NegInf (Finite m2 e2) = (if 0 \<le> m2 then NegInf else PosInf)"
| "f64_div x y = NaN"

fun f64_mul :: "float64 \<Rightarrow> float64 \<Rightarrow> float64" where
  "f64_mul (Finite m1 e1) (Finite m2 e2) = nearest (m1 * m2) 1 (e1 + e2)"
| "f64_mul NaN y = NaN"
| "f64_mul x NaN = NaN"
| "f64_mul (Finite m e) y =
     (if m = 0 then NaN else if (0 < m) = (y = PosInf) then PosInf else NegInf)"
| "f64_mul x (Finite m e) =
     (if m = 0 then NaN else if (0 < m) = (x = PosInf) then PosInf else NegInf)"
| "f64_mul x y = (if x = y then PosInf else NegInf)"

fun f64_add :: "float64 \<Rightarrow> float64 \<Rightarrow> float64" where
  "f64_add (Finite m1 e1) (Finite m2 e2) =
     (let e = min e1 e2
      in nearest (m1 * 2 ^ nat (e1 - e) + m2 * 2 ^ nat (e2 - e)) 1 e)"
| "f64_add NaN y = NaN"
| "f64_add x NaN = NaN"
| "f64_add (Finite m e) y = y"
| "f64_add x (Finite m e) = x"
| "f64_add x y = (if x = y then x else NaN)"

text \<open>The real number that a finite double stands for.\<close>

fun valof :: "float64 \<Rightarrow> real option" where
  "valof (Finite m e) =
     Some (if 0 \<le> e then real_of_int (m * 2 ^ nat e) else real_of_int m / 2 ^ nat (- e))"
| "valof x = None"

section \<open>The variable engine (internal/runner/runner.go)\<close>

record Variable =
  Name :: string
  Type :: string
  Strategy :: string
  Value :: string
  StartValue :: go_int
  EndValue :: go_int
  Increment :: go_int
  MinValue :: go_int
  MaxValue :: go_int
  Template :: string
  current :: go_int

text \<open>The mutex of the Go struct has no counterpart: every resolution is one atomic step here.\<close>

record VariableContext =
  Variables :: "string \<rightharpoonup> Variable"
  RequestIndex :: go_int
  Rand :: "nat stream"

text \<open>
  What the engine reads from outside the context: fresh UUIDs, the clock (already in
  RFC3339 form), and the text that \<^verbatim>\<open>fmt.Sprintf("%.2f", float64(min) + u * float64(max - min))\<close>
  produces for the bounds and the raw draw behind \<open>u\<close> (floating point is not interpreted).
\<close>

record world =
  uuid_New :: "string stream"
  time_Now :: "string stream"
  Sprintf_2f :: "go_int \<Rightarrow> go_int \<Rightarrow> nat \<Rightarrow> string"

type_synonym 'a engine = "panic + ('a \<times> VariableContext \<times> world)"

definition getVariableValue ::
  "string \<Rightarrow> VariableContext \<Rightarrow> world \<Rightarrow> go_int \<Rightarrow> (string \<times> go_error option) engine" where
  "getVariableValue name ctx w requestIndex =
     (if name = ''$index'' then Inr ((Itoa requestIndex, None), ctx, w)
      else if name = ''$random'' then
        (case Intn (Rand ctx) 10000 of
           Inl p \<Rightarrow> Inl p
         | Inr (k, r) \<Rightarrow> Inr ((Itoa k, None), ctx\<lparr>Rand := r\<rparr>, w))
      else
        (case Variables ctx name of
           None \<Rightarrow> Inr (('''', Some (UndefinedVariable name)), ctx, w)
         | Some v \<Rightarrow>
             if Strategy v = ''static'' then Inr ((Value v, None), ctx, w)
             else if Strategy v = ''sequential'' then
               (let cur = current v;
                    v1 = v\<lparr>current := current v + Increment v\<rparr>;
                    v2 = (if sint (EndValue v1) > sint (StartValue v1)
                             \<and> sint (current v1) > sint (EndValue v1)
                          then v1\<lparr>current := StartValue v1\<rparr> else v1)
                in Inr ((Itoa cur, None), ctx\<lparr>Variables := (Variables ctx)(name \<mapsto> v2)\<rparr>, w))
             else if Strategy v = ''random'' then
               (if Type v = ''integer'' then
                  (case Intn (Rand ctx) (MaxValue v - MinValue v + 1) of
                     Inl p \<Rightarrow> Inl p
                   | Inr (k, r) \<Rightarrow> Inr ((Itoa (k + MinValue v), None), ctx\<lparr>Rand := r\<rparr>, w))
                else if Type v = ''float'' then
                  Inr ((Sprintf_2f w (MinValue v) (MaxValue v) (shd (Rand ctx)), None),
                       ctx\<lparr>Rand := stl (Rand ctx)\<rparr>, w)
                else
                  (case Intn (Rand ctx) 10000 of
                     Inl p \<Rightarrow> Inl p
                   | Inr (k, r) \<Rightarrow> Inr ((''random-'' @ Itoa k, None), ctx\<lparr>Rand := r\<rparr>, w)))
             else if Strategy v = ''uuid'' then
               Inr ((shd (uuid_New w), None), ctx, w\<lparr>uuid_New := stl (uuid_New w)\<rparr>)
             else if Strategy v = ''timestamp'' then
               Inr ((shd (time_Now w), None), ctx, w\<lparr>time_Now := stl (time_Now w)\<rparr>)
             else if Strategy v = ''template'' then
               (let t1 = ReplaceAll (Template v) ''{{$index}}'' (Itoa requestIndex)
                in case Intn (Rand ctx) 10000 of
                     Inl p \<Rightarrow> Inl p
                   | Inr (k, r) \<Rightarrow>
                       Inr ((ReplaceAll t1 ''{{$random}}'' (Itoa k), None), ctx\<lparr>Rand := r\<rparr>, w))
             else Inr (('''', Some (UnsupportedStrategy (Strategy v))), ctx, w)))"

text \<open>
  The regular expression \<^verbatim>\<open>\{\{([^}]+)\}\}\<close> anchored at the head of a string: two opening
  braces, the longest run of characters other than a closing brace (at least one), two
  closing braces. The result is the submatch (the name) and what follows the match.
\<close>

definition match_here :: "string \<Rightarrow> (string \<times> string) option" where
  "match_here s =
     (if take 2 s = ''{{'' then
        (let name = takeWhile (\<lambda>c. c \<noteq> CHR ''}'') (drop 2 s);
             after = dropWhile (\<lambda>c. c \<noteq> CHR ''}'') (drop 2 s)
         in if name \<noteq> [] \<and> take 2 after = ''}}'' then Some (name, drop 2 after) else None)
      else None)"

text \<open>
  The matches of the expression in a string, leftmost first and non-overlapping, with the
  text between them: what \<^verbatim>\<open>ReplaceAllStringFunc\<close> walks through.
\<close>

datatype token = Lit char | Placeholder string

function scan :: "string \<Rightarrow> token list" where
  "scan [] = []"
| "scan (c # cs) =
     (case match_here (c # cs) of
        Some (name, rest) \<Rightarrow> Placeholder name # scan rest
      | None \<Rightarrow> Lit c # scan cs)"
  by pat_completeness auto
termination
proof (relation "measure length")
  show "wf (measure length)" by simp
next
  fix c :: char and cs :: string and x :: "string \<times> string" and name rest :: string
  assume m: "match_here (c # cs) = Some x" and x: "(name, rest) = x"
  let ?s = "c # cs"
  have "length (dropWhile (\<lambda>c. c \<noteq> CHR ''}'') (drop 2 ?s)) \<le> length (drop 2 ?s)"
    by (rule length_dropWhile_le)
  moreover from m x have "take 2 ?s = ''{{''"
    and "rest = drop 2 (dropWhile (\<lambda>c. c \<noteq> CHR ''}'') (drop 2 ?s))"
    by (auto simp: match_here_def Let_def split: if_splits)
  ultimately have "length rest < length ?s"
    by (cases cs) auto
  then show "(rest, c # cs) \<in> measure length" by simp
next
  fix c :: char and cs :: string
  show "(cs, c # cs) \<in> measure length" by simp
qed

text \<open>The callback of \<open>processVariables\<close> (lines 362-371): on an error the match is kept.\<close>

definition resolve_match ::
  "go_int \<Rightarrow> string \<Rightarrow> VariableContext \<Rightarrow> world \<Rightarrow> string engine" where
  "resolve_match requestIndex varName ctx w =
     (case getVariableValue varName ctx w requestIndex of
        Inl p \<Rightarrow> Inl p
      | Inr ((varValue, err), ctx', w') \<Rightarrow>
          (case err of
             Some e \<Rightarrow> Inr (''{{'' @ varName @ ''}}'', ctx', w')
           | None \<Rightarrow> Inr (varValue, ctx', w')))"

text \<open>The callback is run on every match, from left to right.\<close>

fun ReplaceAllStringFunc ::
  "token list \<Rightarrow> go_int \<Rightarrow> VariableContext \<Rightarrow> world \<Rightarrow> string engine" where
  "ReplaceAllStringFunc [] i ctx w = Inr ([], ctx, w)"
| "ReplaceAllStringFunc (Lit c # ts) i ctx w =
     (case ReplaceAllStringFunc ts i ctx w of
        Inl p \<Rightarrow> Inl p
      | Inr (out, ctx', w') \<Rightarrow> Inr (c # out, ctx', w'))"
| "ReplaceAllStringFunc (Placeholder n # ts) i ctx w =
     (case resolve_match i n ctx w of
        Inl p \<Rightarrow> Inl p
      | Inr (txt, ctx1, w1) \<Rightarrow>
          (case ReplaceAllStringFunc ts i ctx1 w1 of
             Inl p \<Rightarrow> Inl p
           | Inr (out, ctx', w') \<Rightarrow> Inr (txt @ out, ctx', w')))"

definition processVariables ::
  "string \<Rightarrow> VariableContext \<Rightarrow> world \<Rightarrow> go_int \<Rightarrow> (string \<times> go_error option) engine" where
  "processVariables input ctx w requestIndex =
     (if input = [] then Inr ((input, None), ctx, w)
      else
        (case ReplaceAllStringFunc (scan input) requestIndex ctx w of
           Inl p \<Rightarrow> Inl p
         | Inr (result, ctx', w') \<Rightarrow> Inr ((result, None), ctx', w')))"

section \<open>The API models (internal/api/models.go)\<close>

text \<open>
  \<^verbatim>\<open>time.Duration\<close> is an int64 count of nanoseconds, a 64-bit word here; a \<^verbatim>\<open>time.Time\<close> is
  the number of nanoseconds since the Unix epoch.
\<close>

record TestConfiguration =
  ID :: string
  TestName :: string
  URL :: string
  Method :: string
  Requests :: go_int
  Concurrency :: go_int
  TimeoutSecs :: go_int
  AuthToken :: string
  Body :: string
  RunInPipeline :: bool
  UseVariables :: bool
  VariablesJSON :: string
  Description :: string

record RequestResult =
  Duration :: "64 word"
  Status :: go_int
  Error :: "go_error option"
  Timestamp :: int

record ErrorData =
  ErrStatus :: string
  Message :: string

record TimelinePoint =
  PointTimestamp :: float64
  ResponseTime :: float64
  ActiveUsers :: float64

record TestResult =
  TestConfigurationID :: string
  ResultURL :: string
  ResultMethod :: string
  ResultRequests :: go_int
  ResultConcurrency :: go_int
  SuccessRate :: float64
  AvgResponseTime :: float64
  MinResponseTime :: float64
  MaxResponseTime :: float64
  RequestsPerSecond :: float64
  StatusCodes :: "string \<rightharpoonup> go_int"
  Errors :: "ErrorData list"
  Timeline :: "TimelinePoint list"

section \<open>Setting up the variable context\<close>

text \<open>Lines 341-347: the defaults of one variable.\<close>

definition prepare :: "Variable \<Rightarrow> Variable" where
  "prepare v =
     (let v1 = (if Strategy v = ''sequential'' \<and> sint (Increment v) \<le> 0
                then v\<lparr>Increment := 1\<rparr> else v);
          v2 = (if Strategy v1 = ''sequential'' then v1\<lparr>current := StartValue v1\<rparr> else v1)
      in v2)"

text \<open>
  \<^verbatim>\<open>json.Unmarshal\<close> into \<^verbatim>\<open>[]*Variable\<close> is a parameter: \<open>None\<close> when it returns an error,
  otherwise the decoded slice, whose entries may be nil pointers (JSON \<^verbatim>\<open>null\<close>). The loop of
  lines 340-349 dereferences each entry.
\<close>

fun init_variables :: "Variable option list \<Rightarrow> (string \<rightharpoonup> Variable) \<Rightarrow> panic + (string \<rightharpoonup> Variable)" where
  "init_variables [] m = Inr m"
| "init_variables (None # vs) m = Inl NilPointerDereference"
| "init_variables (Some v # vs) m = init_variables vs (m(Name (prepare v) \<mapsto> prepare v))"

definition setupVariableContext ::
  "(string \<Rightarrow> Variable option list option) \<Rightarrow> nat stream \<Rightarrow> TestConfiguration \<Rightarrow> panic + VariableContext" where
  "setupVariableContext json_Unmarshal rnd config =
     (let ctx = \<lparr>Variables = Map.empty, RequestIndex = 0, Rand = rnd\<rparr>
      in case json_Unmarshal (VariablesJSON config) of
           None \<Rightarrow> Inr ctx
         | Some variables \<Rightarrow>
             (case init_variables variables (Variables ctx) of
                Inl p \<Rightarrow> Inl p
              | Inr m \<Rightarrow> Inr (ctx\<lparr>Variables := m\<rparr>)))"

section \<open>The request executor\<close>

record Request =
  req_Method :: string
  req_URL :: string
  req_Body :: "string option"
  req_Header :: "string \<rightharpoonup> string"

text \<open>
  What one call of \<open>executeRequest\<close> reads from outside: whether the run's context is
  already done, the error (if any) that \<^verbatim>\<open>http.NewRequestWithContext\<close> reports for a method
  and a URL, the clock, and what \<^verbatim>\<open>client.Do\<close> gives for a request: the elapsed time and
  either a transport error or the status code of the response.
\<close>

record call_env =
  ctx_Done :: bool
  NewRequest_error :: "string \<Rightarrow> string \<Rightarrow> go_error option"
  time_Now_failure :: int
  reqStart :: int
  client_Do :: "Request \<Rightarrow> 64 word \<times> (go_error + go_int)"

text \<open>
  Lines 268-284. When \<^verbatim>\<open>http.NewRequestWithContext\<close> fails it returns a nil request; on the
  branch of the body-carrying methods the header is set before the error is looked at.
\<close>

definition build_request ::
  "(string \<Rightarrow> string \<Rightarrow> go_error option) \<Rightarrow> TestConfiguration \<Rightarrow> string \<Rightarrow> string
     \<Rightarrow> panic + (go_error + Request)" where
  "build_request new_err config reqURL reqBody =
     (let m = (if Method config = [] then ''GET'' else Method config) in
      if Method config = ''GET'' \<or> Method config = ''DELETE'' then
        (case new_err (Method config) reqURL of
           Some e \<Rightarrow> Inr (Inl e)
         | None \<Rightarrow> Inr (Inr \<lparr>req_Method = m, req_URL = reqURL, req_Body = None,
                              req_Header = Map.empty\<rparr>))
      else
        (let body = (if reqBody \<noteq> [] then reqBody else ''{}'') in
         case new_err (Method config) reqURL of
           Some e \<Rightarrow> Inl NilPointerDereference
         | None \<Rightarrow> Inr (Inr \<lparr>req_Method = m, req_URL = reqURL, req_Body = Some body,
                              req_Header = [''Content-Type'' \<mapsto> ''application/json'']\<rparr>)))"

datatype branch = CtxDone | VariableErrorURL | VariableErrorBody | BuildError | Performed

text \<open>
  The value sent on the result channel (none when the context is done), the branch that
  produced it, the request handed to the client, and the state left behind.
\<close>

record executed =
  sent :: "RequestResult option"
  taken :: branch
  issued :: "Request option"
  varCtx_after :: "VariableContext option"
  world_after :: world

definition failure :: "call_env \<Rightarrow> go_error \<Rightarrow> RequestResult" where
  "failure io err = \<lparr>Duration = 0, Status = 0, Error = Some err, Timestamp = time_Now_failure io\<rparr>"

definition perform ::
  "call_env \<Rightarrow> TestConfiguration \<Rightarrow> string \<Rightarrow> string \<Rightarrow> VariableContext option \<Rightarrow> world
     \<Rightarrow> panic + executed" where
  "perform io config reqURL reqBody varCtx w =
     (case build_request (NewRequest_error io) config reqURL reqBody of
        Inl p \<Rightarrow> Inl p
      | Inr (Inl err) \<Rightarrow>
          Inr \<lparr>sent = Some (failure io err), taken = BuildError, issued = None,
               varCtx_after = varCtx, world_after = w\<rparr>
      | Inr (Inr req0) \<Rightarrow>
          (let req = (if AuthToken config \<noteq> []
                      then req0\<lparr>req_Header := (req_Header req0)(''Authorization'' \<mapsto> AuthToken config)\<rparr>
                      else req0);
               (reqDuration, resp) = client_Do io req;
               result = \<lparr>Duration = reqDuration, Status = 0, Error = None, Timestamp = reqStart io\<rparr>;
               result' = (case resp of
                            Inl err \<Rightarrow> result\<lparr>Error := Some err\<rparr>
                          | Inr code \<Rightarrow> result\<lparr>Status := code\<rparr>)
           in Inr \<lparr>sent = Some result', taken = Performed, issued = Some req,
                   varCtx_after = varCtx, world_after = w\<rparr>))"

definition executeRequest ::
  "call_env \<Rightarrow> TestConfiguration \<Rightarrow> go_int \<Rightarrow> VariableContext option \<Rightarrow> world \<Rightarrow> panic + executed" where
  "executeRequest io config reqIdx varCtx w =
     (if ctx_Done io then
        Inr \<lparr>sent = None, taken = CtxDone, issued = None, varCtx_after = varCtx, world_after = w\<rparr>
      else
        (case (if UseVariables config then varCtx else None) of
           None \<Rightarrow> perform io config (URL config) (Body config) varCtx w
         | Some vc \<Rightarrow>
             (case processVariables (URL config) vc w reqIdx of
                Inl p \<Rightarrow> Inl p
              | Inr ((reqURL, err), vc1, w1) \<Rightarrow>
                  (case err of
                     Some e \<Rightarrow>
                       Inr \<lparr>sent = Some (failure io e), taken = VariableErrorURL, issued = None,
                            varCtx_after = Some vc1, world_after = w1\<rparr>
                   | None \<Rightarrow>
                       if Method config = ''POST'' \<or> Method config = ''PUT'' \<or> Method config = ''PATCH''
                       then
                         (case processVariables (Body config) vc1 w1 reqIdx of
                            Inl p \<Rightarrow> Inl p
                          | Inr ((reqBody, err'), vc2, w2) \<Rightarrow>
                              (case err' of
                                 Some e \<Rightarrow>
                                   Inr \<lparr>sent = Some (failure io e), taken = VariableErrorBody,
                                        issued = None, varCtx_after = Some vc2, world_after = w2\<rparr>
                               | None \<Rightarrow> perform io config reqURL reqBody (Some vc2) w2))
                       else perform io config reqURL (Body config) (Some vc1) w1))))"

section \<open>RunTest: the deadline and the aggregation of the results\<close>

definition Second :: "64 word" where
  "Second = 1000000000"

definition Hour :: "64 word" where
  "Hour = 3600000000000"

text \<open>\<^verbatim>\<open>Duration.Milliseconds\<close> is the int64 quotient by \<open>10\<^sup>6\<close>, truncated towards zero.\<close>

definition Milliseconds :: "64 word \<Rightarrow> int" where
  "Milliseconds d = sint d sdiv 1000000"

text \<open>
  \<^verbatim>\<open>Duration.Seconds\<close>: the whole seconds and the remaining nanoseconds (both int64, the
  remainder with the sign of the duration), added as doubles.
\<close>

definition Seconds :: "64 word \<Rightarrow> float64" where
  "Seconds d =
     f64_add (f64_of_int (sint d sdiv 1000000000))
             (f64_div (f64_of_int (sint d smod 1000000000)) (Finite 1000000000 0))"

definition Unix :: "int \<Rightarrow> int" where
  "Unix t = t div 1000000000"

text \<open>
  Lines 67-70: \<^verbatim>\<open>time.Duration(config.Requests/config.Concurrency+10)*time.Second\<close>, the
  timeout of the run's context, in nanoseconds.
\<close>

definition run_timeout :: "TestConfiguration \<Rightarrow> panic + 64 word" where
  "run_timeout config =
     (case go_quo (Requests config) (Concurrency config) of
        Inl p \<Rightarrow> Inl p
      | Inr q \<Rightarrow> Inr ((q + 10) * Second))"

fun Error_text :: "go_error \<Rightarrow> string" where
  "Error_text (UndefinedVariable n) = ''undefined variable: '' @ n"
| "Error_text (UnsupportedStrategy n) = ''unsupported variable strategy: '' @ n"
| "Error_text (NewRequestError m) = m"
| "Error_text (TransportError m) = m"

text \<open>
  The local variables of the loop over the result channel (lines 133-177). The Go map
  \<open>timelinePoints\<close> is a list of buckets in the order in which their seconds first occur
  (Go leaves the order of iteration open).
\<close>

record aggregation =
  result :: TestResult
  totalDuration :: "64 word"
  minDuration :: "64 word"
  maxDuration :: "64 word"
  successCount :: go_int
  totalCount :: go_int
  timelinePoints :: "(int \<times> float64 list) list"

fun append_point ::
  "int \<Rightarrow> float64 \<Rightarrow> (int \<times> float64 list) list \<Rightarrow> (int \<times> float64 list) list" where
  "append_point second d [] = [(second, [d])]"
| "append_point second d ((k, ds) # bs) =
     (if k = second then (k, ds @ [d]) # bs else (k, ds) # append_point second d bs)"

definition initial :: "TestConfiguration \<Rightarrow> aggregation" where
  "initial config =
     \<lparr>result = \<lparr>TestConfigurationID = ID config, ResultURL = URL config,
                 ResultMethod = Method config, ResultRequests = Requests config,
                 ResultConcurrency = Concurrency config, SuccessRate = Finite 0 0,
                 AvgResponseTime = Finite 0 0, MinResponseTime = Finite 0 0,
                 MaxResponseTime = Finite 0 0, RequestsPerSecond = Finite 0 0,
                 StatusCodes = Map.empty, Errors = [], Timeline = []\<rparr>,
      totalDuration = 0, minDuration = Hour, maxDuration = 0, successCount = 0, totalCount = 0,
      timelinePoints = []\<rparr>"

text \<open>One iteration of the loop, lines 143-176; \<^verbatim>\<open>http.StatusText\<close> is a parameter.\<close>

definition process_result :: "(go_int \<Rightarrow> string) \<Rightarrow> aggregation \<Rightarrow> RequestResult \<Rightarrow> aggregation" where
  "process_result StatusText a res =
     (let a1 = a\<lparr>totalCount := totalCount a + 1\<rparr> in
      case Error res of
        Some e \<Rightarrow>
          a1\<lparr>result := (result a1)\<lparr>Errors := Errors (result a1) @
                                       [\<lparr>ErrStatus = [], Message = Error_text e\<rparr>]\<rparr>\<rparr>
      | None \<Rightarrow>
          (let statusKey = Itoa (Status res);
               r1 = (result a1)\<lparr>StatusCodes := (StatusCodes (result a1))
                        (statusKey \<mapsto> (case StatusCodes (result a1) statusKey of
                                          None \<Rightarrow> 0 | Some n \<Rightarrow> n) + 1)\<rparr>;
               a2 = (if 200 \<le> sint (Status res) \<and> sint (Status res) < 400
                     then a1\<lparr>result := r1, successCount := successCount a1 + 1\<rparr>
                     else a1\<lparr>result := r1\<lparr>Errors := Errors r1 @
                                 [\<lparr>ErrStatus = statusKey, Message = StatusText (Status res)\<rparr>]\<rparr>\<rparr>);
               a3 = a2\<lparr>totalDuration := totalDuration a2 + Duration res\<rparr>;
               a4 = (if sint (Duration res) < sint (minDuration a3)
                     then a3\<lparr>minDuration := Duration res\<rparr> else a3);
               a5 = (if sint (Duration res) > sint (maxDuration a4)
                     then a4\<lparr>maxDuration := Duration res\<rparr> else a4);
               second = Unix (Timestamp res)
           in a5\<lparr>timelinePoints :=
                    append_point second (f64_of_int (Milliseconds (Duration res)))
                      (timelinePoints a5)\<rparr>))"

text \<open>Lines 179-206: the summary figures and the timeline.\<close>

definition summarize :: "aggregation \<Rightarrow> 64 word \<Rightarrow> TestResult" where
  "summarize a totalTestDuration =
     (let r = result a;
          r1 = (if sint (totalCount a) > 0 then
                  (let r' = r\<lparr>SuccessRate :=
                                f64_mul (f64_div (f64_of_int (sint (successCount a)))
                                                 (f64_of_int (sint (totalCount a))))
                                        (Finite 100 0),
                              AvgResponseTime :=
                                f64_div (f64_of_int (Milliseconds (totalDuration a)))
                                        (f64_of_int (sint (totalCount a))),
                              RequestsPerSecond :=
                                f64_div (f64_of_int (sint (totalCount a)))
                                        (Seconds totalTestDuration)\<rparr>
                   in if sint (successCount a) > 0
                      then r'\<lparr>MinResponseTime := f64_of_int (Milliseconds (minDuration a)),
                              MaxResponseTime := f64_of_int (Milliseconds (maxDuration a))\<rparr>
                      else r')
                else r)
      in r1\<lparr>Timeline := Timeline r1 @
                map (\<lambda>(second, durations).
                       \<lparr>PointTimestamp = f64_of_int second,
                        ResponseTime = f64_div (foldl f64_add (Finite 0 0) durations)
                                               (f64_of_int (int (length durations))),
                        ActiveUsers = f64_of_int (int (length durations))\<rparr>)
                    (timelinePoints a)\<rparr>)"

text \<open>
  \<open>RunTest\<close>. The feeder, the workers and the network are not modelled: \<open>received\<close> is the
  sequence of values read from the result channel until it is closed, in the order of
  arrival, and \<open>totalTestDuration\<close> the wall-clock time measured around the loop. What
  precedes the loop is modelled in the order of the source: the division for the timeout,
  the variable context, the allocation of the channels (a negative size panics).
\<close>

record run_env =
  json_Unmarshal :: "string \<Rightarrow> Variable option list option"
  rnd :: "nat stream"
  StatusText :: "go_int \<Rightarrow> string"

definition RunTest ::
  "run_env \<Rightarrow> TestConfiguration \<Rightarrow> RequestResult list \<Rightarrow> 64 word \<Rightarrow> panic + TestResult" where
  "RunTest env config received totalTestDuration =
     (case run_timeout config of
        Inl p \<Rightarrow> Inl p
      | Inr timeout \<Rightarrow>
          (case (if UseVariables config
                 then map_sum id Some (setupVariableContext (json_Unmarshal env) (rnd env) config)
                 else Inr None) of
             Inl p \<Rightarrow> Inl p
           | Inr varCtx \<Rightarrow>
               if sint (Requests config) < 0 then Inl MakeChanSizeOutOfRange
               else Inr (summarize
                           (foldl (process_result (StatusText env)) (initial config) received)
                           totalTestDuration)))"

section \<open>The specification's wording, and example inputs\<close>

text \<open>
  The deadline as the specification words it: the quotient of the request count by the
  concurrency level, rounded up, plus ten seconds.
\<close>

definition spec_deadline_seconds :: "int \<Rightarrow> int \<Rightarrow> int" where
  "spec_deadline_seconds requests concurrency =
     \<lceil>real_of_int requests / real_of_int concurrency\<rceil> + 10"

definition config_of :: "go_int \<Rightarrow> go_int \<Rightarrow> TestConfiguration" where
  "config_of requests concurrency =
     \<lparr>ID = ''t1'', TestName = ''example'', URL = ''http://localhost/'', Method = ''GET'',
      Requests = requests, Concurrency = concurrency, TimeoutSecs = 5, AuthToken = [],
      Body = [], RunInPipeline = False, UseVariables = False, VariablesJSON = [],
      Description = []\<rparr>"

definition env0 :: run_env where
  "env0 = \<lparr>json_Unmarshal = (\<lambda>s. None), rnd = sconst 0, StatusText = (\<lambda>c. ''status'')\<rparr>"

text \<open>
  An outcome has responded when it carries no failure cause; it is a success when, in
  addition, its status lies in 200..399.
\<close>

definition responded :: "RequestResult \<Rightarrow> bool" where
  "responded r \<longleftrightarrow> Error r = None"

definition is_success :: "RequestResult \<Rightarrow> bool" where
  "is_success r \<longleftrightarrow> Error r = None \<and> 200 \<le> sint (Status r) \<and> sint (Status r) < 400"

text \<open>The success rate as the specification words it, a real number.\<close>

definition spec_success_rate :: "RequestResult list \<Rightarrow> real" where
  "spec_success_rate received =
     100 * real (length (filter is_success received)) / real (length received)"

text \<open>
  The latency figures as the specification words them: the extremes over the durations of
  the successful outcomes only (zero when there is none), and the average as the sum of
  the durations of all processed outcomes over their number, in milliseconds.
\<close>

definition spec_min_latency :: "RequestResult list \<Rightarrow> real" where
  "spec_min_latency received =
     (let ds = map (sint \<circ> Duration) (filter is_success received)
      in if ds = [] then 0 else real_of_int (Min (set ds) sdiv 1000000))"

definition spec_max_latency :: "RequestResult list \<Rightarrow> real" where
  "spec_max_latency received =
     (let ds = map (sint \<circ> Duration) (filter is_success received)
      in if ds = [] then 0 else real_of_int (Max (set ds) sdiv 1000000))"

definition spec_avg_latency :: "RequestResult list \<Rightarrow> real" where
  "spec_avg_latency received =
     real_of_int (sum_list (map (sint \<circ> Duration) received) sdiv 1000000) / real (length received)"

text \<open>Example outcomes: a duration in milliseconds, a status code, a failure cause.\<close>

definition outcome :: "int \<Rightarrow> go_int \<Rightarrow> go_error option \<Rightarrow> RequestResult" where
  "outcome ms code err =
     \<lparr>Duration = word_of_int (ms * 1000000), Status = code, Error = err, Timestamp = 1700000000000000000\<rparr>"

definition three_outcomes :: "RequestResult list" where
  "three_outcomes = [outcome 100 0 (Some (TransportError ''connection refused'')),
                     outcome 10 500 None, outcome 50 200 None]"

definition slow_success_fast_error :: "RequestResult list" where
  "slow_success_fast_error = [outcome 50 200 None, outcome 10 500 None]"

definition failed_and_answered :: "RequestResult list" where
  "failed_and_answered = [outcome 100 0 (Some (TransportError ''timeout'')), outcome 50 200 None]"

text \<open>
  The names that \<open>getVariableValue\<close> answers before it looks at the variables; a reference
  is undefined when it is none of them and the context has no variable of that name; a
  reference makes \<^verbatim>\<open>rand.Intn\<close> panic when it names a random integer variable for which
  \<open>MaxValue - MinValue + 1\<close>, computed in Go's int, is not positive.
\<close>

definition builtin :: "string \<Rightarrow> bool" where
  "builtin n \<longleftrightarrow> n = ''$index'' \<or> n = ''$random''"

definition undefined_reference :: "VariableContext \<Rightarrow> string \<Rightarrow> bool" where
  "undefined_reference ctx n \<longleftrightarrow> \<not> builtin n \<and> Variables ctx n = None"

definition intn_rejects :: "VariableContext \<Rightarrow> string \<Rightarrow> bool" where
  "intn_rejects ctx n \<longleftrightarrow>
     \<not> builtin n \<and>
     (case Variables ctx n of
        None \<Rightarrow> False
      | Some v \<Rightarrow> Strategy v = ''random'' \<and> Type v = ''integer''
                  \<and> sint (MaxValue v - MinValue v + 1) \<le> 0)"

text \<open>
  The text of a token in the input, and what it means for the piece of output that stands
  for a token to be the token left verbatim: literal text always is, a placeholder has to
  be when its reference is undefined.
\<close>

fun render :: "token \<Rightarrow> string" where
  "render (Lit c) = [c]"
| "render (Placeholder n) = ''{{'' @ n @ ''}}''"

definition verbatim :: "VariableContext \<Rightarrow> token \<Rightarrow> string \<Rightarrow> bool" where
  "verbatim ctx t piece \<longleftrightarrow>
     (case t of
        Lit c \<Rightarrow> piece = [c]
      | Placeholder n \<Rightarrow> undefined_reference ctx n \<longrightarrow> piece = ''{{'' @ n @ ''}}'')"


text \<open>Example variables, contexts and environments.\<close>

definition variable_of :: "string \<Rightarrow> string \<Rightarrow> string \<Rightarrow> Variable" where
  "variable_of n t s =
     \<lparr>Name = n, Type = t, Strategy = s, Value = [], StartValue = 0, EndValue = 0, Increment = 0,
      MinValue = 0, MaxValue = 0, Template = [], current = 0\<rparr>"

definition context_of :: "Variable list \<Rightarrow> VariableContext" where
  "context_of vs = \<lparr>Variables = map_of (map (\<lambda>v. (Name v, v)) vs), RequestIndex = 0, Rand = sconst 7\<rparr>"

definition world0 :: world where
  "world0 = \<lparr>uuid_New = sconst ''123e4567-e89b-42d3-a456-426614174000'',
             time_Now = sconst ''2024-01-01T00:00:00Z'',
             Sprintf_2f = (\<lambda>lo hi k. ''0.00'')\<rparr>"

definition io0 :: call_env where
  "io0 = \<lparr>ctx_Done = False, NewRequest_error = (\<lambda>m u. None), time_Now_failure = 1700000000000000000,
          reqStart = 1700000000000000000, client_Do = (\<lambda>req. (5000000, Inr 200))\<rparr>"




definition fixed_five :: Variable where
  "fixed_five = (variable_of ''x'' ''integer'' ''random'')\<lparr>MinValue := 5, MaxValue := 5\<rparr>"

definition widest_bounds :: Variable where
  "widest_bounds = (variable_of ''x'' ''integer'' ''random'')
                     \<lparr>MinValue := - 1, MaxValue := 9223372036854775807\<rparr>"

definition inverted_bounds :: Variable where
  "inverted_bounds = (variable_of ''x'' ''integer'' ''random'')\<lparr>MinValue := 5, MaxValue := 3\<rparr>"

definition post_config :: TestConfiguration where
  "post_config = (config_of 10 2)\<lparr>URL := ''http://localhost/users/{{id}}'', Method := ''POST'',
                                   UseVariables := True\<rparr>"

definition posted :: Request where
  "posted = \<lparr>req_Method = ''POST'', req_URL = ''http://localhost/users/{{id}}'',
             req_Body = Some ''{}'',
             req_Header = [''Content-Type'' \<mapsto> ''application/json'']\<rparr>"

definition post_executed :: executed where
  "post_executed =
     \<lparr>sent = Some \<lparr>Duration = 5000000, Status = 200, Error = None,
                    Timestamp = 1700000000000000000\<rparr>,
      taken = Performed, issued = Some posted,
      varCtx_after = Some (context_of []), world_after = world0\<rparr>"

definition two_failures_one_success :: "RequestResult list" where
  "two_failures_one_success =
     [outcome 100 0 (Some (TransportError ''timeout'')),
      outcome 100 0 (Some (TransportError ''timeout'')), outcome 60 200 None]"

text \<open>
  A configuration without a method; a URL whose host is a placeholder, and an environment
  in which \<^verbatim>\<open>http.NewRequestWithContext\<close> rejects such a URL, as \<^verbatim>\<open>net/url\<close> does for a brace in
  the host name.
\<close>

definition empty_method_config :: TestConfiguration where
  "empty_method_config = (config_of 10 2)\<lparr>Method := []\<rparr>"

definition host_config :: TestConfiguration where
  "host_config = (config_of 10 2)\<lparr>URL := ''http://{{host}}/users'', Method := ''POST'',
                                   UseVariables := True\<rparr>"

definition io_strict :: call_env where
  "io_strict = io0\<lparr>NewRequest_error :=
     (\<lambda>m u. if take 9 u = ''http://{{''
            then Some (NewRequestError ''invalid character in host name'') else None)\<rparr>"

section \<open>Word arithmetic\<close>

lemma sint_word_of_int_64:
  fixes k :: int
  assumes "- 9223372036854775808 \<le> k" and "k < 9223372036854775808"
  shows "sint (word_of_int k :: 64 word) = k"
proof -
  have "signed_take_bit (63::nat) k = k"
    using assms by (intro signed_take_bit_int_eq_self) simp_all
  then show ?thesis
    by (simp add: sint_sbintrunc')
qed

lemma sint_of_nat_64:
  assumes "n < 9223372036854775808"
  shows "sint (of_nat n :: 64 word) = int n"
  using assms sint_word_of_int_64[of "int n"] by simp


lemma sint_add_64:
  fixes a b :: "64 word"
  assumes "- 9223372036854775808 \<le> sint a + sint b" and "sint a + sint b < 9223372036854775808"
  shows "sint (a + b) = sint a + sint b"
proof -
  have "a + b = word_of_int (sint a + sint b)" by simp
  then show ?thesis
    using sint_word_of_int_64 [OF assms] by simp
qed

lemma sint_diff_64:
  fixes a b :: "64 word"
  assumes "- 9223372036854775808 \<le> sint a - sint b" and "sint a - sint b < 9223372036854775808"
  shows "sint (a - b) = sint a - sint b"
proof -
  have "a - b = word_of_int (sint a - sint b)" by simp
  then show ?thesis
    using sint_word_of_int_64 [OF assms] by simp
qed

lemma sint_bounds_64:
  fixes a :: "64 word"
  shows "- 9223372036854775808 \<le> sint a" and "sint a < 9223372036854775808"
  using sint_ge [of a] sint_lt [of a] by simp_all

section \<open>The run deadline\<close>

text \<open>
  C1 (as amended). For every test configuration whose concurrency is not zero, the timeout
  of the run is the quotient of the request count by the concurrency, truncated towards
  zero as Go's integer division does (not rounded up), plus ten, times one second, in
  int64 nanoseconds. For a non-negative request count and a positive concurrency this is
  exactly \<open>floor (requests / concurrency) + 10\<close> seconds, as long as the product fits.
\<close>

theorem run_timeout_truncated_quotient:
  assumes "Concurrency config \<noteq> 0"
  shows "\<exists>d. run_timeout config = Inr d
          \<and> d = (word_of_int (sint (Requests config) sdiv sint (Concurrency config)) + 10) * Second
          \<and> (0 \<le> sint (Requests config) \<and> 0 < sint (Concurrency config)
               \<and> sint (Requests config) div sint (Concurrency config) < 9223372026
             \<longrightarrow> sint d = (sint (Requests config) div sint (Concurrency config) + 10) * 1000000000)"
proof -
  let ?R = "sint (Requests config)" and ?C = "sint (Concurrency config)"
  let ?d = "(word_of_int (?R sdiv ?C) + 10) * Second"
  have run: "run_timeout config = Inr ?d"
    using assms by (simp add: run_timeout_def go_quo_def)
  have "sint ?d = (?R div ?C + 10) * 1000000000"
    if nonneg: "0 \<le> ?R" and pos: "0 < ?C" and small: "?R div ?C < 9223372026"
  proof -
    have q: "?R sdiv ?C = ?R div ?C"
      using nonneg pos by (simp add: signed_divide_int_def sgn_if)
    have q0: "0 \<le> ?R div ?C"
      using nonneg pos by (simp add: pos_imp_zdiv_nonneg_iff)
    define k where "k = (?R div ?C + 10) * 1000000000"
    have "?d = word_of_int k"
      by (simp add: q Second_def k_def)
    moreover have "- 9223372036854775808 \<le> k"
      using q0 by (simp add: k_def)
    moreover have "k < 9223372036854775808"
      using small by (simp add: k_def)
    ultimately have "sint ?d = k"
      using sint_word_of_int_64 [of k] by simp
    then show ?thesis
      by (simp add: k_def)
  qed
  with run show ?thesis by blast
qed

theorem run_timeout_truncated_quotient_witness:
  "Concurrency (config_of 5 2) \<noteq> 0
   \<and> (\<exists>d. run_timeout (config_of 5 2) = Inr d \<and> sint d = 12 * 1000000000)"
  using run_timeout_truncated_quotient [of "config_of 5 2"]
  by (simp add: config_of_def signed_divide_int_def)

text \<open>
  Five requests at concurrency two: the code waits 12 seconds, the rounded-up quotient
  plus ten is 13.
\<close>

theorem run_timeout_ceiling_counterexample:
  "run_timeout (config_of 5 2)
     \<noteq> Inr (word_of_int (spec_deadline_seconds (sint (Requests (config_of 5 2)))
                                               (sint (Concurrency (config_of 5 2)))) * Second)"
  by (simp add: run_timeout_def go_quo_def config_of_def spec_deadline_seconds_def Second_def
      signed_divide_int_def)

text \<open>
  C9. The division for the timeout has no guard: for every configuration whose concurrency
  is zero \<open>RunTest\<close> panics with a division by zero, whatever the network would have
  delivered; the channels and the workers come after it, so no request is issued.
\<close>

theorem RunTest_zero_concurrency_panics:
  assumes "Concurrency config = 0"
  shows "RunTest env config received totalTestDuration = Inl DivideByZero"
  using assms by (simp add: RunTest_def run_timeout_def go_quo_def)

theorem RunTest_zero_concurrency_panics_witness:
  "Concurrency (config_of 100 0) = 0
   \<and> RunTest env0 (config_of 100 0) [] 0 = Inl DivideByZero"
  using RunTest_zero_concurrency_panics [of "config_of 100 0" env0 "[]" 0]
  by (simp add: config_of_def)

section \<open>The aggregation loop\<close>

lemma totalCount_step: "totalCount (process_result st a r) = totalCount a + 1"
  by (simp add: process_result_def Let_def split: option.split)

lemma successCount_step:
  "successCount (process_result st a r) = successCount a + (if is_success r then 1 else 0)"
  by (simp add: process_result_def Let_def is_success_def split: option.split)

lemma totalDuration_step:
  "totalDuration (process_result st a r) = totalDuration a + (if responded r then Duration r else 0)"
  by (simp add: process_result_def Let_def responded_def split: option.split)

lemma minDuration_step:
  "sint (minDuration (process_result st a r)) =
     (if responded r then min (sint (Duration r)) (sint (minDuration a)) else sint (minDuration a))"
  by (simp add: process_result_def Let_def responded_def split: option.split)

lemma maxDuration_step:
  "sint (maxDuration (process_result st a r)) =
     (if responded r then max (sint (Duration r)) (sint (maxDuration a)) else sint (maxDuration a))"
  by (simp add: process_result_def Let_def responded_def split: option.split)

lemma totalCount_foldl:
  "totalCount (foldl (process_result st) a rs) = totalCount a + of_nat (length rs)"
  by (induction rs arbitrary: a) (simp_all add: totalCount_step)

lemma successCount_foldl:
  "successCount (foldl (process_result st) a rs) = successCount a + of_nat (length (filter is_success rs))"
  by (induction rs arbitrary: a) (simp_all add: successCount_step)

lemma totalDuration_foldl:
  "totalDuration (foldl (process_result st) a rs)
     = totalDuration a + sum_list (map Duration (filter responded rs))"
  by (induction rs arbitrary: a) (simp_all add: totalDuration_step)

lemma Min_insert_min:
  fixes x y :: int
  assumes "finite S"
  shows "Min (insert (min x y) S) = Min (insert y (insert x S))"
proof (cases "S = {}")
  case True
  then show ?thesis by (simp add: min.commute)
next
  case False
  with assms show ?thesis
    by (simp add: min.assoc min.commute min.left_commute)
qed

lemma Max_insert_max:
  fixes x y :: int
  assumes "finite S"
  shows "Max (insert (max x y) S) = Max (insert y (insert x S))"
proof (cases "S = {}")
  case True
  then show ?thesis by (simp add: max.commute)
next
  case False
  with assms show ?thesis
    by (simp add: max.assoc max.commute max.left_commute)
qed

lemma minDuration_foldl:
  "sint (minDuration (foldl (process_result st) a rs))
     = Min (insert (sint (minDuration a)) (set (map (sint \<circ> Duration) (filter responded rs))))"
proof (induction rs arbitrary: a)
  case Nil
  then show ?case by simp
next
  case (Cons r rs)
  let ?S = "set (map (sint \<circ> Duration) (filter responded rs))"
  show ?case
  proof (cases "responded r")
    case True
    have "sint (minDuration (foldl (process_result st) a (r # rs)))
            = Min (insert (min (sint (Duration r)) (sint (minDuration a))) ?S)"
      using True by (simp add: Cons.IH minDuration_step)
    also have "\<dots> = Min (insert (sint (minDuration a)) (insert (sint (Duration r)) ?S))"
      by (rule Min_insert_min) simp
    finally show ?thesis
      using True by simp
  next
    case False
    then show ?thesis by (simp add: Cons.IH minDuration_step)
  qed
qed

lemma maxDuration_foldl:
  "sint (maxDuration (foldl (process_result st) a rs))
     = Max (insert (sint (maxDuration a)) (set (map (sint \<circ> Duration) (filter responded rs))))"
proof (induction rs arbitrary: a)
  case Nil
  then show ?case by simp
next
  case (Cons r rs)
  let ?S = "set (map (sint \<circ> Duration) (filter responded rs))"
  show ?case
  proof (cases "responded r")
    case True
    have "sint (maxDuration (foldl (process_result st) a (r # rs)))
            = Max (insert (max (sint (Duration r)) (sint (maxDuration a))) ?S)"
      using True by (simp add: Cons.IH maxDuration_step)
    also have "\<dots> = Max (insert (sint (maxDuration a)) (insert (sint (Duration r)) ?S))"
      by (rule Max_insert_max) simp
    finally show ?thesis
      using True by simp
  next
    case False
    then show ?thesis by (simp add: Cons.IH maxDuration_step)
  qed
qed

lemma bits_0: "bits 0 = 0"
  by (simp add: bits.simps)

lemma bits_Suc_0: "bits (Suc 0) = Suc 0"
  by (simp add: bits.simps)

lemma bits_numeral: "bits (numeral w) = Suc (bits (numeral w div 2))"
  by (subst bits.simps) simp

lemmas f64_eval = f64_of_int_def nearest_def round_ratio_def Let_def bits_0 bits_Suc_0 bits_numeral

lemma Milliseconds_exact: "f64_of_int (Milliseconds d) = Finite (Milliseconds d) 0"
proof -
  have "\<bar>sint d\<bar> \<le> 9223372036854775808"
    using sint_bounds_64 [of d] by linarith
  then have "\<bar>sint d\<bar> div 1000000 \<le> 9223372036854775808 div 1000000"
    by (rule zdiv_mono1) simp
  then have "\<bar>sint d sdiv 1000000\<bar> < 9007199254740992"
    by (simp add: signed_divide_int_def abs_mult)
  then show ?thesis
    by (simp add: f64_of_int_def Milliseconds_def)
qed

lemma summarize_fields:
  "SuccessRate (summarize a d) =
     (if sint (totalCount a) > 0
      then f64_mul (f64_div (f64_of_int (sint (successCount a))) (f64_of_int (sint (totalCount a))))
             (Finite 100 0)
      else SuccessRate (result a))"
  "AvgResponseTime (summarize a d) =
     (if sint (totalCount a) > 0
      then f64_div (f64_of_int (Milliseconds (totalDuration a))) (f64_of_int (sint (totalCount a)))
      else AvgResponseTime (result a))"
  "RequestsPerSecond (summarize a d) =
     (if sint (totalCount a) > 0 then f64_div (f64_of_int (sint (totalCount a))) (Seconds d)
      else RequestsPerSecond (result a))"
  "MinResponseTime (summarize a d) =
     (if sint (totalCount a) > 0 \<and> sint (successCount a) > 0
      then f64_of_int (Milliseconds (minDuration a)) else MinResponseTime (result a))"
  "MaxResponseTime (summarize a d) =
     (if sint (totalCount a) > 0 \<and> sint (successCount a) > 0
      then f64_of_int (Milliseconds (maxDuration a)) else MaxResponseTime (result a))"
  by (simp_all add: summarize_def Let_def)

lemma result_step_rates:
  "SuccessRate (result (process_result st a r)) = SuccessRate (result a)"
  "AvgResponseTime (result (process_result st a r)) = AvgResponseTime (result a)"
  "RequestsPerSecond (result (process_result st a r)) = RequestsPerSecond (result a)"
  "MinResponseTime (result (process_result st a r)) = MinResponseTime (result a)"
  "MaxResponseTime (result (process_result st a r)) = MaxResponseTime (result a)"
  by (simp_all add: process_result_def Let_def split: option.split)

lemma result_foldl_min:
  "MinResponseTime (result (foldl (process_result st) a rs)) = MinResponseTime (result a)"
  "MaxResponseTime (result (foldl (process_result st) a rs)) = MaxResponseTime (result a)"
  by (induction rs arbitrary: a) (simp_all add: result_step_rates)


lemma RunTest_Inr:
  assumes "RunTest env config received d = Inr res"
  shows "res = summarize (foldl (process_result (StatusText env)) (initial config) received) d"
  using assms by (auto simp: RunTest_def split: sum.splits if_splits)

lemma counts:
  assumes bound: "int (length received) \<le> sint (Requests config)"
  shows "sint (totalCount (foldl (process_result st) (initial config) received))
           = int (length received)"
    and "sint (successCount (foldl (process_result st) (initial config) received))
           = int (length (filter is_success received))"
proof -
  have "sint (Requests config) < 9223372036854775808"
    using sint_lt [of "Requests config"] by simp
  with bound have n: "length received < 9223372036854775808" by linarith
  moreover have "length (filter is_success received) \<le> length received" by simp
  ultimately have m: "length (filter is_success received) < 9223372036854775808" by linarith
  show "sint (totalCount (foldl (process_result st) (initial config) received))
           = int (length received)"
    using n by (simp add: totalCount_foldl initial_def sint_of_nat_64)
  show "sint (successCount (foldl (process_result st) (initial config) received))
           = int (length (filter is_success received))"
    using m by (simp add: successCount_foldl initial_def sint_of_nat_64)
qed

lemma initial_fields:
  "totalDuration (initial config) = 0"
  "minDuration (initial config) = Hour"
  "maxDuration (initial config) = 0"
  "SuccessRate (result (initial config)) = Finite 0 0"
  "MinResponseTime (result (initial config)) = Finite 0 0"
  "MaxResponseTime (result (initial config)) = Finite 0 0"
  by (simp_all add: initial_def)

lemma RunTest_returns:
  assumes "Concurrency config \<noteq> 0" and "\<not> UseVariables config" and "0 \<le> sint (Requests config)"
  shows "RunTest env config received d
           = Inr (summarize (foldl (process_result (StatusText env)) (initial config) received) d)"
  using assms by (simp add: RunTest_def run_timeout_def go_quo_def)

lemma SuccessRate_RunTest:
  assumes run: "RunTest env config received d = Inr res"
      and ne: "received \<noteq> []"
      and bound: "int (length received) \<le> sint (Requests config)"
  shows "SuccessRate res
           = f64_mul (f64_div (f64_of_int (int (length (filter is_success received))))
                              (f64_of_int (int (length received))))
                     (Finite 100 0)"
proof -
  from ne have "0 < length received" by simp
  then show ?thesis
    by (simp add: RunTest_Inr [OF run] summarize_fields counts [OF bound])
qed

lemma AvgResponseTime_RunTest:
  assumes run: "RunTest env config received d = Inr res"
      and ne: "received \<noteq> []"
      and bound: "int (length received) \<le> sint (Requests config)"
  shows "AvgResponseTime res
           = f64_div (f64_of_int (Milliseconds (sum_list (map Duration (filter responded received)))))
                     (f64_of_int (int (length received)))"
proof -
  from ne have "0 < length received" by simp
  then show ?thesis
    by (simp add: RunTest_Inr [OF run] summarize_fields counts [OF bound] totalDuration_foldl
        initial_fields)
qed

lemma MinResponseTime_RunTest:
  assumes run: "RunTest env config received d = Inr res"
      and some: "filter is_success received \<noteq> []"
      and bound: "int (length received) \<le> sint (Requests config)"
  shows "MinResponseTime res
           = Finite (Min (insert (sint Hour)
                 (set (map (sint \<circ> Duration) (filter responded received)))) sdiv 1000000) 0"
proof -
  let ?a = "foldl (process_result (StatusText env)) (initial config) received"
  from some have "received \<noteq> []" by auto
  with some have "0 < sint (successCount ?a)" and "0 < sint (totalCount ?a)"
    by (simp_all add: counts [OF bound])
  then have "MinResponseTime res = Finite (Milliseconds (minDuration ?a)) 0"
    by (simp add: RunTest_Inr [OF run] summarize_fields Milliseconds_exact)
  then show ?thesis
    by (simp add: Milliseconds_def minDuration_foldl initial_fields)
qed

text \<open>
  C2 (as amended). For every run that returns and has processed at least one outcome, the
  reported success rate is the double that \<^verbatim>\<open>float64(successes) / float64(total) * 100\<close>
  computes: the quotient of the two counts rounded to the nearest double, multiplied by
  100 and rounded again. A success is an outcome without failure cause and with a status
  in 200..399, and the total counts every processed outcome, transport errors and HTTP
  error statuses included. The outcomes of a run are never more than the configured
  requests: the feeder emits the indices \<open>0..Requests - 1\<close> and each index yields at most
  one result (lines 96-105 and 119); this keeps the int counters of the loop exact.
\<close>

theorem success_rate_rounded:
  assumes run: "RunTest env config received d = Inr res"
      and ne: "received \<noteq> []"
      and bound: "int (length received) \<le> sint (Requests config)"
  shows "SuccessRate res
           = f64_mul (f64_div (f64_of_int (int (length (filter is_success received))))
                              (f64_of_int (int (length received))))
                     (Finite 100 0)"
proof -
  from ne have "0 < length received" by simp
  then show ?thesis
    by (simp add: RunTest_Inr [OF run] summarize_fields counts [OF bound])
qed

theorem success_rate_rounded_witness:
  "RunTest env0 (config_of 3 1) three_outcomes 2000000000
     = Inr (summarize (foldl (process_result (StatusText env0)) (initial (config_of 3 1))
              three_outcomes) 2000000000)
   \<and> three_outcomes \<noteq> []
   \<and> int (length three_outcomes) \<le> sint (Requests (config_of 3 1))
   \<and> SuccessRate (summarize (foldl (process_result (StatusText env0)) (initial (config_of 3 1))
        three_outcomes) 2000000000) = Finite 4691249611844266 (- 47)"
proof -
  let ?res = "summarize (foldl (process_result (StatusText env0)) (initial (config_of 3 1))
                three_outcomes) 2000000000"
  have run: "RunTest env0 (config_of 3 1) three_outcomes 2000000000 = Inr ?res"
    by (simp add: RunTest_def run_timeout_def go_quo_def config_of_def)
  have ne: "three_outcomes \<noteq> []"
    by (simp add: three_outcomes_def)
  have bound: "int (length three_outcomes) \<le> sint (Requests (config_of 3 1))"
    by (simp add: three_outcomes_def config_of_def)
  from success_rate_rounded [OF run ne bound]
  have "SuccessRate ?res = Finite 4691249611844266 (- 47)"
    by (simp add: three_outcomes_def is_success_def outcome_def f64_eval)
  with run ne bound show ?thesis by blast
qed

text \<open>
  One success among three outcomes: the code reports the double 33.33333333333333, which
  is \<open>4691249611844266 / 2\<^sup>4\<^sup>7\<close> and not \<open>100 / 3\<close>.
\<close>

theorem success_rate_exact_counterexample:
  "map_sum id (valof \<circ> SuccessRate) (RunTest env0 (config_of 3 1) three_outcomes 2000000000)
     = Inr (Some (4691249611844266 / 2 ^ 47))
   \<and> spec_success_rate three_outcomes = 100 / 3
   \<and> (4691249611844266 / 2 ^ 47 :: real) \<noteq> 100 / 3"
proof -
  let ?res = "summarize (foldl (process_result (StatusText env0)) (initial (config_of 3 1))
                three_outcomes) 2000000000"
  have run: "RunTest env0 (config_of 3 1) three_outcomes 2000000000 = Inr ?res"
    by (rule RunTest_returns) (simp_all add: config_of_def)
  have "SuccessRate ?res = Finite 4691249611844266 (- 47)"
    by (subst SuccessRate_RunTest [OF run])
      (simp_all add: three_outcomes_def config_of_def is_success_def outcome_def f64_eval)
  with run show ?thesis
    by (simp add: spec_success_rate_def three_outcomes_def is_success_def outcome_def)
qed

text \<open>
  C4 (as amended). For every run that returns, the reported minimum and maximum latency
  are zero when no successful outcome occurred; otherwise they are the minimum and the
  maximum, in whole milliseconds, over the durations of all outcomes without a failure
  cause, whatever their status, together with the initial values of the loop (one hour for
  the minimum, zero for the maximum). The conversion of the milliseconds to a double is
  exact.
\<close>

theorem latency_extremes_over_responded:
  assumes run: "RunTest env config received d = Inr res"
      and bound: "int (length received) \<le> sint (Requests config)"
  shows "MinResponseTime res =
           Finite (if filter is_success received = [] then 0
                   else Min (insert (sint Hour)
                          (set (map (sint \<circ> Duration) (filter responded received)))) sdiv 1000000) 0
       \<and> MaxResponseTime res =
           Finite (if filter is_success received = [] then 0
                   else Max (insert 0
                          (set (map (sint \<circ> Duration) (filter responded received)))) sdiv 1000000) 0"
proof -
  let ?a = "foldl (process_result (StatusText env)) (initial config) received"
  have res: "res = summarize ?a d"
    by (rule RunTest_Inr [OF run])
  have tc: "sint (totalCount ?a) = int (length received)"
   and sc: "sint (successCount ?a) = int (length (filter is_success received))"
    by (rule counts [OF bound])+
  show ?thesis
  proof (cases "filter is_success received = []")
    case True
    then show ?thesis
      by (simp add: res summarize_fields sc result_foldl_min initial_fields)
  next
    case False
    then have "received \<noteq> []" by auto
    with False have "0 < sint (successCount ?a)" and "0 < sint (totalCount ?a)"
      by (simp_all add: tc sc)
    then have "MinResponseTime res = Finite (Milliseconds (minDuration ?a)) 0"
      and "MaxResponseTime res = Finite (Milliseconds (maxDuration ?a)) 0"
      by (simp_all add: res summarize_fields Milliseconds_exact)
    with False show ?thesis
      by (simp add: Milliseconds_def minDuration_foldl maxDuration_foldl initial_fields)
  qed
qed

theorem latency_extremes_over_responded_witness:
  "RunTest env0 (config_of 2 1) slow_success_fast_error 1000000000
     = Inr (summarize (foldl (process_result (StatusText env0)) (initial (config_of 2 1))
              slow_success_fast_error) 1000000000)
   \<and> int (length slow_success_fast_error) \<le> sint (Requests (config_of 2 1))
   \<and> MinResponseTime (summarize (foldl (process_result (StatusText env0))
        (initial (config_of 2 1)) slow_success_fast_error) 1000000000) = Finite 10 0
   \<and> MaxResponseTime (summarize (foldl (process_result (StatusText env0))
        (initial (config_of 2 1)) slow_success_fast_error) 1000000000) = Finite 50 0"
proof -
  let ?res = "summarize (foldl (process_result (StatusText env0)) (initial (config_of 2 1))
                slow_success_fast_error) 1000000000"
  have run: "RunTest env0 (config_of 2 1) slow_success_fast_error 1000000000 = Inr ?res"
    by (simp add: RunTest_def run_timeout_def go_quo_def config_of_def)
  have bound: "int (length slow_success_fast_error) \<le> sint (Requests (config_of 2 1))"
    by (simp add: slow_success_fast_error_def config_of_def)
  from latency_extremes_over_responded [OF run bound]
  have "MinResponseTime ?res = Finite 10 0 \<and> MaxResponseTime ?res = Finite 50 0"
    by (simp add: slow_success_fast_error_def is_success_def responded_def outcome_def Hour_def
        signed_divide_int_def)
  with run bound show ?thesis by blast
qed

text \<open>
  A success of 50 ms and a response with status 500 after 10 ms: the minimum over the
  successes is 50 ms, the code reports 10 ms.
\<close>

theorem min_latency_counterexample:
  "map_sum id (valof \<circ> MinResponseTime)
     (RunTest env0 (config_of 2 1) slow_success_fast_error 1000000000) = Inr (Some 10)
   \<and> spec_min_latency slow_success_fast_error = 50"
proof -
  let ?res = "summarize (foldl (process_result (StatusText env0)) (initial (config_of 2 1))
                slow_success_fast_error) 1000000000"
  have run: "RunTest env0 (config_of 2 1) slow_success_fast_error 1000000000 = Inr ?res"
    by (rule RunTest_returns) (simp_all add: config_of_def)
  have "MinResponseTime ?res = Finite 10 0"
    by (subst MinResponseTime_RunTest [OF run])
      (simp_all add: slow_success_fast_error_def config_of_def is_success_def responded_def
        outcome_def Hour_def signed_divide_int_def)
  with run show ?thesis
    by (simp add: spec_min_latency_def slow_success_fast_error_def is_success_def outcome_def
        signed_divide_int_def)
qed

text \<open>
  C5 (the code at a failing input). Two transport errors after 100 ms each and a success
  after 60 ms: the sum of the durations of all three outcomes over their number is
  \<open>260 / 3\<close> ms; the code leaves the loop body before it adds the duration of a failed outcome
  but has already counted it, and reports \<open>60 / 3 = 20\<close> ms, less than the minimum of 60 ms
  it reports for the same run.
\<close>

theorem average_latency_skips_failed_outcomes:
  "map_sum id (valof \<circ> AvgResponseTime)
     (RunTest env0 (config_of 3 1) two_failures_one_success 1000000000) = Inr (Some 20)
   \<and> map_sum id (valof \<circ> MinResponseTime)
     (RunTest env0 (config_of 3 1) two_failures_one_success 1000000000) = Inr (Some 60)
   \<and> spec_avg_latency two_failures_one_success = 260 / 3"
proof -
  let ?res = "summarize (foldl (process_result (StatusText env0)) (initial (config_of 3 1))
                two_failures_one_success) 1000000000"
  have run: "RunTest env0 (config_of 3 1) two_failures_one_success 1000000000 = Inr ?res"
    by (rule RunTest_returns) (simp_all add: config_of_def)
  have "valof (AvgResponseTime ?res) = Some 20"
    by (subst AvgResponseTime_RunTest [OF run])
      (simp_all add: two_failures_one_success_def config_of_def responded_def outcome_def
        Milliseconds_def signed_divide_int_def f64_eval)
  moreover have "MinResponseTime ?res = Finite 60 0"
    by (subst MinResponseTime_RunTest [OF run])
      (simp_all add: two_failures_one_success_def config_of_def is_success_def responded_def
        outcome_def Hour_def signed_divide_int_def)
  ultimately show ?thesis
    using run
    by (simp add: spec_avg_latency_def two_failures_one_success_def outcome_def
        signed_divide_int_def)
qed

section \<open>The variable engine: properties\<close>

lemma Intn_10000: "Intn r 10000 = Inr (word_of_int (int (shd r) mod 10000), stl r)"
  by (simp add: Intn_def)

lemma getVariableValue_result:
  assumes "\<not> intn_rejects ctx n"
  shows "\<exists>val err ctx' w'. getVariableValue n ctx w i = Inr ((val, err), ctx', w')
           \<and> (\<forall>m. intn_rejects ctx' m = intn_rejects ctx m)
           \<and> (\<forall>m. undefined_reference ctx' m = undefined_reference ctx m)
           \<and> (undefined_reference ctx n \<longrightarrow> err \<noteq> None \<and> ctx' = ctx \<and> w' = w)"
  using assms
  by (auto simp: getVariableValue_def Intn_10000 Intn_def Let_def intn_rejects_def
      undefined_reference_def builtin_def split: option.splits)

lemma getVariableValue_panic:
  "getVariableValue n ctx w i = Inl p \<Longrightarrow> p = IntnInvalidArgument \<and> intn_rejects ctx n"
  by (auto simp: getVariableValue_def Intn_10000 Intn_def Let_def intn_rejects_def builtin_def
      split: option.splits if_splits)

lemma resolve_match_result:
  assumes "\<not> intn_rejects ctx n"
  shows "\<exists>piece ctx' w'. resolve_match i n ctx w = Inr (piece, ctx', w')
           \<and> (\<forall>m. intn_rejects ctx' m = intn_rejects ctx m)
           \<and> (\<forall>m. undefined_reference ctx' m = undefined_reference ctx m)
           \<and> (undefined_reference ctx n \<longrightarrow> piece = render (Placeholder n) \<and> ctx' = ctx \<and> w' = w)"
proof -
  from getVariableValue_result [OF assms, of w i]
  obtain val err ctx' w' where g: "getVariableValue n ctx w i = Inr ((val, err), ctx', w')"
    and keep: "\<forall>m. intn_rejects ctx' m = intn_rejects ctx m"
              "\<forall>m. undefined_reference ctx' m = undefined_reference ctx m"
    and undef: "undefined_reference ctx n \<longrightarrow> err \<noteq> None \<and> ctx' = ctx \<and> w' = w"
    by blast
  show ?thesis
  proof (cases err)
    case None
    with g keep undef show ?thesis
      by (simp add: resolve_match_def)
  next
    case (Some e)
    with g keep undef show ?thesis
      by (simp add: resolve_match_def)
  qed
qed

lemma resolve_match_panic:
  "resolve_match i n ctx w = Inl p \<Longrightarrow> p = IntnInvalidArgument \<and> intn_rejects ctx n"
  by (auto simp: resolve_match_def dest: getVariableValue_panic split: sum.splits option.splits)

lemma ReplaceAllStringFunc_result:
  assumes "\<forall>t \<in> set ts. \<forall>n. t = Placeholder n \<longrightarrow> \<not> intn_rejects ctx n"
  shows "\<exists>pieces ctx' w'. ReplaceAllStringFunc ts i ctx w = Inr (concat pieces, ctx', w')
           \<and> list_all2 (verbatim ctx) ts pieces"
  using assms
proof (induction ts arbitrary: ctx w)
  case Nil
  then show ?case by simp
next
  case (Cons t ts)
  show ?case
  proof (cases t)
    case (Lit c)
    from Cons.prems have "\<forall>t \<in> set ts. \<forall>n. t = Placeholder n \<longrightarrow> \<not> intn_rejects ctx n"
      by simp
    from Cons.IH [OF this, of w]
    obtain pieces ctx' w' where "ReplaceAllStringFunc ts i ctx w = Inr (concat pieces, ctx', w')"
      and "list_all2 (verbatim ctx) ts pieces"
      by blast
    then have "ReplaceAllStringFunc (t # ts) i ctx w = Inr (concat ([c] # pieces), ctx', w')
               \<and> list_all2 (verbatim ctx) (t # ts) ([c] # pieces)"
      by (simp add: Lit verbatim_def)
    then show ?thesis by blast
  next
    case (Placeholder n)
    with Cons.prems have ok: "\<not> intn_rejects ctx n" by simp
    from resolve_match_result [OF ok, of i w]
    obtain piece ctx1 w1 where r: "resolve_match i n ctx w = Inr (piece, ctx1, w1)"
      and same: "\<forall>m. intn_rejects ctx1 m = intn_rejects ctx m"
      and undef: "\<forall>m. undefined_reference ctx1 m = undefined_reference ctx m"
      and at_n: "undefined_reference ctx n \<longrightarrow> piece = render (Placeholder n)"
      by blast
    from Cons.prems same
    have "\<forall>t \<in> set ts. \<forall>n. t = Placeholder n \<longrightarrow> \<not> intn_rejects ctx1 n"
      by simp
    from Cons.IH [OF this, of w1]
    obtain pieces ctx' w' where rest: "ReplaceAllStringFunc ts i ctx1 w1 = Inr (concat pieces, ctx', w')"
      and v1: "list_all2 (verbatim ctx1) ts pieces"
      by blast
    from undef have "verbatim ctx1 = verbatim ctx"
      by (intro ext) (simp add: verbatim_def split: token.split)
    with v1 have "list_all2 (verbatim ctx) ts pieces" by simp
    with r rest at_n
    have "ReplaceAllStringFunc (t # ts) i ctx w = Inr (concat (piece # pieces), ctx', w')
          \<and> list_all2 (verbatim ctx) (t # ts) (piece # pieces)"
      by (simp add: Placeholder verbatim_def)
    then show ?thesis by blast
  qed
qed

lemma ReplaceAllStringFunc_panic:
  "ReplaceAllStringFunc ts i ctx w = Inl p \<Longrightarrow> p = IntnInvalidArgument"
proof (induction ts arbitrary: ctx w)
  case Nil
  then show ?case by simp
next
  case (Cons t ts)
  then show ?case
    by (cases t) (auto dest: resolve_match_panic split: sum.splits prod.splits)
qed

lemma match_here_text:
  assumes "match_here s = Some (name, rest)"
  shows "s = ''{{'' @ name @ ''}}'' @ rest"
proof -
  let ?t = "drop 2 s"
  let ?after = "dropWhile (\<lambda>c. c \<noteq> CHR ''}'') ?t"
  from assms have a: "take 2 s = ''{{''" and n: "name = takeWhile (\<lambda>c. c \<noteq> CHR ''}'') ?t"
    and b: "take 2 ?after = ''}}''" and r: "rest = drop 2 ?after"
    by (auto simp: match_here_def Let_def split: if_splits)
  have "s = take 2 s @ ?t" by simp
  also have "?t = name @ ?after" by (simp add: n)
  also have "?after = take 2 ?after @ rest" by (simp add: r)
  finally show ?thesis by (simp add: a b)
qed

lemma scan_text: "concat (map render (scan s)) = s"
proof (induction s rule: scan.induct)
  case 1
  then show ?case by simp
next
  case (2 c cs)
  show ?case
  proof (cases "match_here (c # cs)")
    case None
    with 2 show ?thesis by simp
  next
    case (Some x)
    obtain name rest where x: "x = (name, rest)" by (cases x)
    from 2(2) [OF Some x [symmetric]] have "concat (map render (scan rest)) = rest" .
    moreover from Some x have "c # cs = ''{{'' @ name @ ''}}'' @ rest"
      by (intro match_here_text) simp
    ultimately show ?thesis
      using Some x by simp
  qed
qed

lemma processVariables_error_None:
  "processVariables input ctx w i = Inr ((out, err), ctx', w') \<Longrightarrow> err = None"
  by (auto simp: processVariables_def split: if_splits sum.splits)

lemma processVariables_panic:
  "processVariables input ctx w i = Inl p \<Longrightarrow> p = IntnInvalidArgument"
  by (auto simp: processVariables_def dest: ReplaceAllStringFunc_panic split: if_splits sum.splits)








lemma processVariables_result:
  assumes "\<forall>t \<in> set (scan input). \<forall>n. t = Placeholder n \<longrightarrow> \<not> intn_rejects ctx n"
  shows "\<exists>pieces ctx' w'.
           processVariables input ctx w i = Inr ((concat pieces, None), ctx', w')
         \<and> list_all2 (verbatim ctx) (scan input) pieces
         \<and> concat (map render (scan input)) = input"
proof (cases "input = []")
  case True
  then have "processVariables input ctx w i = Inr ((concat [], None), ctx, w)
             \<and> list_all2 (verbatim ctx) (scan input) []"
    by (simp add: processVariables_def)
  then show ?thesis
    using scan_text by blast
next
  case False
  from ReplaceAllStringFunc_result [OF assms, of i w]
  obtain pieces ctx' w'
    where "ReplaceAllStringFunc (scan input) i ctx w = Inr (concat pieces, ctx', w')"
      and "list_all2 (verbatim ctx) (scan input) pieces"
    by blast
  with False have "processVariables input ctx w i = Inr ((concat pieces, None), ctx', w')
                   \<and> list_all2 (verbatim ctx) (scan input) pieces"
    by (simp add: processVariables_def)
  then show ?thesis
    using scan_text by blast
qed

text \<open>
  C6 (the code at two failing inputs). A random integer variable with minimum 5 and
  maximum 3: resolving a reference to it panics in \<^verbatim>\<open>rand.Intn\<close>, which the callback of
  \<open>processVariables\<close> does not catch. And one undefined reference does abort a request: the
  placeholder is left in the URL, the host name \<^verbatim>\<open>{{host}}\<close> makes
  \<^verbatim>\<open>http.NewRequestWithContext\<close> fail, and for a POST the executor sets a header on the nil
  request before it looks at the error.
\<close>

theorem resolution_fails_hard:
  "processVariables ''{{x}}'' (context_of [inverted_bounds]) world0 0 = Inl IntnInvalidArgument
   \<and> undefined_reference (context_of []) ''host''
   \<and> processVariables (URL host_config) (context_of []) world0 0
        = Inr ((''http://{{host}}/users'', None), context_of [], world0)
   \<and> executeRequest io_strict host_config 0 (Some (context_of [])) world0
        = Inl NilPointerDereference"
  by (simp add: processVariables_def match_here_def resolve_match_def getVariableValue_def
      context_of_def inverted_bounds_def variable_of_def Intn_def undefined_reference_def
      builtin_def host_config_def config_of_def executeRequest_def perform_def
      build_request_def io_strict_def io0_def)

text \<open>
  C7 (as amended). For every random variable of integer type with \<open>min \<le> max\<close> whose range
  \<open>max - min + 1\<close> fits Go's int, every resolution yields an integer between \<open>min\<close> and
  \<open>max\<close>, both included; when \<open>min = max\<close> it yields that value (5 for 5 and 5).
\<close>

theorem random_integer_in_range:
  assumes v: "Variables ctx name = Some v"
      and nb: "\<not> builtin name"
      and strategy: "Strategy v = ''random''" and type: "Type v = ''integer''"
      and le: "sint (MinValue v) \<le> sint (MaxValue v)"
      and fit: "sint (MaxValue v) - sint (MinValue v) < 9223372036854775807"
  shows "\<exists>k. getVariableValue name ctx w i = Inr ((Itoa k, None), ctx\<lparr>Rand := stl (Rand ctx)\<rparr>, w)
           \<and> sint (MinValue v) \<le> sint k \<and> sint k \<le> sint (MaxValue v)
           \<and> (MinValue v = MaxValue v \<longrightarrow> k = MinValue v)"
proof -
  let ?lo = "MinValue v" and ?hi = "MaxValue v"
  let ?n = "?hi - ?lo + 1"
  note b = sint_bounds_64 [of ?lo] sint_bounds_64 [of ?hi]
  have d: "sint (?hi - ?lo) = sint ?hi - sint ?lo"
    using le fit b by (intro sint_diff_64) linarith+
  have n: "sint ?n = sint ?hi - sint ?lo + 1"
    using le fit d by (subst sint_add_64) simp_all
  define r where "r = int (shd (Rand ctx)) mod sint ?n"
  have pos: "0 < sint ?n" using le n by simp
  then have r0: "0 \<le> r" and r1: "r < sint ?n"
    by (simp_all add: r_def)
  let ?k = "word_of_int r + ?lo :: 64 word"
  have sr: "sint (word_of_int r :: 64 word) = r"
    using r0 r1 n b le fit by (intro sint_word_of_int_64) linarith+
  have sk: "sint ?k = r + sint ?lo"
    using r0 r1 n b sr le fit by (subst sint_add_64) simp_all
  have run: "getVariableValue name ctx w i = Inr ((Itoa ?k, None), ctx\<lparr>Rand := stl (Rand ctx)\<rparr>, w)"
    using v nb strategy type pos
    by (simp add: getVariableValue_def builtin_def Intn_def r_def)
  have "sint ?lo \<le> sint ?k" and "sint ?k \<le> sint ?hi"
    using r0 r1 n sk by simp_all
  moreover have "?k = ?lo" if "?lo = ?hi"
  proof -
    from that n have "sint ?n = 1" by simp
    then have "r = 0" by (simp add: r_def)
    then show ?thesis by simp
  qed
  ultimately show ?thesis
    using run by blast
qed

theorem random_integer_in_range_witness:
  "Variables (context_of [fixed_five]) ''x'' = Some fixed_five
   \<and> \<not> builtin ''x''
   \<and> Strategy fixed_five = ''random'' \<and> Type fixed_five = ''integer''
   \<and> sint (MinValue fixed_five) \<le> sint (MaxValue fixed_five)
   \<and> sint (MaxValue fixed_five) - sint (MinValue fixed_five) < 9223372036854775807
   \<and> MinValue fixed_five = MaxValue fixed_five
   \<and> getVariableValue ''x'' (context_of [fixed_five]) world0 0
        = Inr ((''5'', None), (context_of [fixed_five])\<lparr>Rand := stl (Rand (context_of [fixed_five]))\<rparr>, world0)"
proof -
  have h: "Variables (context_of [fixed_five]) ''x'' = Some fixed_five" "\<not> builtin ''x''"
    "Strategy fixed_five = ''random''" "Type fixed_five = ''integer''"
    "sint (MinValue fixed_five) \<le> sint (MaxValue fixed_five)"
    "sint (MaxValue fixed_five) - sint (MinValue fixed_five) < 9223372036854775807"
    "MinValue fixed_five = MaxValue fixed_five"
    by (simp_all add: context_of_def fixed_five_def variable_of_def builtin_def)
  from random_integer_in_range [OF h(1-6), of world0 0] h(7)
  have "getVariableValue ''x'' (context_of [fixed_five]) world0 0
        = Inr ((Itoa (MinValue fixed_five), None),
               (context_of [fixed_five])\<lparr>Rand := stl (Rand (context_of [fixed_five]))\<rparr>, world0)"
    by auto
  moreover have "Itoa (MinValue fixed_five) = ''5''"
    by (simp add: fixed_five_def variable_of_def Itoa_def digits.simps)
  ultimately show ?thesis
    using h by simp
qed

text \<open>
  Minimum -1 and maximum the largest int: \<open>max - min + 1\<close> wraps around to a negative
  number, and the resolution panics in \<^verbatim>\<open>rand.Intn\<close>.
\<close>

theorem random_integer_overflow_counterexample:
  "sint (MinValue widest_bounds) \<le> sint (MaxValue widest_bounds)
   \<and> getVariableValue ''x'' (context_of [widest_bounds]) world0 0 = Inl IntnInvalidArgument"
  by (simp add: getVariableValue_def context_of_def widest_bounds_def variable_of_def Intn_def)

section \<open>The request executor: properties\<close>

lemma perform_taken:
  "perform io config reqURL reqBody varCtx w = Inr ex \<Longrightarrow> taken ex = BuildError \<or> taken ex = Performed"
  by (auto simp: perform_def Let_def split: sum.splits prod.splits)

lemma perform_request:
  assumes "perform io config reqURL reqBody varCtx w = Inr ex" and "issued ex = Some req"
  shows "if Method config = ''GET'' \<or> Method config = ''DELETE'' then req_Body req = None
         else req_Body req = Some (if reqBody = [] then ''{}'' else reqBody)
              \<and> req_Header req ''Content-Type'' = Some ''application/json''"
  using assms
  by (auto simp: perform_def build_request_def Let_def split: sum.splits prod.splits option.splits if_splits)

lemma perform_method:
  assumes "perform io config reqURL reqBody varCtx w = Inr ex" and "issued ex = Some req"
  shows "req_Method req = (if Method config = [] then ''GET'' else Method config)"
  using assms
  by (auto simp: perform_def build_request_def Let_def split: sum.splits prod.splits option.splits if_splits)

lemma executeRequest_perform:
  assumes "executeRequest io config reqIdx varCtx w = Inr ex" and "issued ex = Some req"
  shows "\<exists>reqURL reqBody vc w'. perform io config reqURL reqBody vc w' = Inr ex
           \<and> (reqBody = Body config
               \<or> (\<exists>vc1 w1 vc2. processVariables (Body config) vc1 w1 reqIdx
                                  = Inr ((reqBody, None), vc2, w')))"
  using assms
  by (auto simp: executeRequest_def split: if_splits option.splits sum.splits prod.splits)
    blast+

lemma post_example:
  "executeRequest io0 post_config 3 (Some (context_of [])) world0 = Inr post_executed"
  by (simp add: executeRequest_def post_config_def config_of_def processVariables_def
      match_here_def resolve_match_def getVariableValue_def context_of_def perform_def
      build_request_def io0_def post_executed_def posted_def Let_def)

text \<open>
  C8 (as amended). Every request that the executor hands to the client for a
  configuration whose method is not the empty string carries the configured method and
  was built from a resolved URL and a resolved body (the configured body, or what the
  variable engine made of it): when its method is GET or DELETE it has no body; for every
  other method its body is the resolved body, or the literal \<^verbatim>\<open>{}\<close> when the resolved body
  is empty, and its Content-Type header is application/json.
\<close>

theorem request_body_rules:
  assumes "executeRequest io config reqIdx varCtx w = Inr ex" and "issued ex = Some req"
      and "Method config \<noteq> []"
  shows "\<exists>reqURL reqBody vc w'.
           perform io config reqURL reqBody vc w' = Inr ex
         \<and> (reqBody = Body config
               \<or> (\<exists>vc1 w1 vc2. processVariables (Body config) vc1 w1 reqIdx
                                  = Inr ((reqBody, None), vc2, w')))
         \<and> req_Method req = Method config
         \<and> (if req_Method req = ''GET'' \<or> req_Method req = ''DELETE'' then req_Body req = None
            else req_Body req = Some (if reqBody = [] then ''{}'' else reqBody)
                 \<and> req_Header req ''Content-Type'' = Some ''application/json'')"
proof -
  from executeRequest_perform [OF assms(1,2)]
  obtain reqURL reqBody vc w' where p: "perform io config reqURL reqBody vc w' = Inr ex"
    and b: "reqBody = Body config
               \<or> (\<exists>vc1 w1 vc2. processVariables (Body config) vc1 w1 reqIdx
                                  = Inr ((reqBody, None), vc2, w'))"
    by blast
  from perform_method [OF p assms(2)] assms(3) have m: "req_Method req = Method config"
    by simp
  from perform_request [OF p assms(2)] m
  have "if req_Method req = ''GET'' \<or> req_Method req = ''DELETE'' then req_Body req = None
        else req_Body req = Some (if reqBody = [] then ''{}'' else reqBody)
             \<and> req_Header req ''Content-Type'' = Some ''application/json''"
    by simp
  with p b m show ?thesis
    by blast
qed

theorem request_body_rules_witness:
  "executeRequest io0 post_config 3 (Some (context_of [])) world0 = Inr post_executed
   \<and> issued post_executed = Some posted
   \<and> Method post_config = ''POST'' \<and> Body post_config = []
   \<and> req_Method posted = ''POST''
   \<and> req_Body posted = Some ''{}''
   \<and> req_Header posted ''Content-Type'' = Some ''application/json''
   \<and> (\<exists>reqURL reqBody vc w'. perform io0 post_config reqURL reqBody vc w' = Inr post_executed
         \<and> req_Method posted = Method post_config)"
proof -
  have i: "issued post_executed = Some posted"
    by (simp add: post_executed_def)
  have m: "Method post_config \<noteq> []"
    by (simp add: post_config_def)
  from request_body_rules [OF post_example i m]
  have "\<exists>reqURL reqBody vc w'. perform io0 post_config reqURL reqBody vc w' = Inr post_executed
         \<and> req_Method posted = Method post_config"
    by blast
  moreover have "Method post_config = ''POST''" "Body post_config = []"
    "req_Method posted = ''POST''"
    "req_Body posted = Some ''{}''" "req_Header posted ''Content-Type'' = Some ''application/json''"
    by (simp_all add: post_config_def config_of_def posted_def)
  ultimately show ?thesis
    using post_example i by blast
qed

text \<open>
  A configuration without a method: the executor takes the branch of the body-carrying
  methods, and \<^verbatim>\<open>http.NewRequestWithContext\<close> turns the empty method into GET, so the request
  built is a GET with the body \<^verbatim>\<open>{}\<close> and a Content-Type header.
\<close>

theorem empty_method_counterexample:
  "map_sum id issued (executeRequest io0 empty_method_config 0 None world0)
     = Inr (Some \<lparr>req_Method = ''GET'', req_URL = ''http://localhost/'', req_Body = Some ''{}'',
                  req_Header = [''Content-Type'' \<mapsto> ''application/json'']\<rparr>)"
  by (simp add: executeRequest_def perform_def build_request_def empty_method_config_def
      config_of_def io0_def)

text \<open>
  C10. For every input string, context and request index, the error that
  \<open>processVariables\<close> returns is nil; it does return, with a nil error, whenever no
  placeholder of the input makes \<^verbatim>\<open>rand.Intn\<close> panic, and it has no other way of not
  returning. So no call of \<open>executeRequest\<close> that returns has taken one of the two branches
  for a failed resolution.
\<close>

theorem processVariables_error_always_nil:
  "(\<forall>out err ctx' w'. processVariables input ctx w i = Inr ((out, err), ctx', w') \<longrightarrow> err = None)
   \<and> ((\<forall>n. Placeholder n \<in> set (scan input) \<longrightarrow> \<not> intn_rejects ctx n)
        \<longrightarrow> (\<exists>out ctx' w'. processVariables input ctx w i = Inr ((out, None), ctx', w')))
   \<and> (\<forall>p. processVariables input ctx w i = Inl p
          \<longrightarrow> p = IntnInvalidArgument
              \<and> (\<exists>n. Placeholder n \<in> set (scan input) \<and> intn_rejects ctx n))
   \<and> (\<forall>ex. executeRequest io config reqIdx varCtx w0 = Inr ex
          \<longrightarrow> taken ex \<noteq> VariableErrorURL \<and> taken ex \<noteq> VariableErrorBody)"
proof (intro conjI)
  show "\<forall>out err ctx' w'. processVariables input ctx w i = Inr ((out, err), ctx', w') \<longrightarrow> err = None"
    using processVariables_error_None by blast
next
  show returns: "(\<forall>n. Placeholder n \<in> set (scan input) \<longrightarrow> \<not> intn_rejects ctx n)
        \<longrightarrow> (\<exists>out ctx' w'. processVariables input ctx w i = Inr ((out, None), ctx', w'))"
  proof
    assume "\<forall>n. Placeholder n \<in> set (scan input) \<longrightarrow> \<not> intn_rejects ctx n"
    then have "\<forall>t \<in> set (scan input). \<forall>n. t = Placeholder n \<longrightarrow> \<not> intn_rejects ctx n"
      by blast
    from processVariables_result [OF this, of w i]
    show "\<exists>out ctx' w'. processVariables input ctx w i = Inr ((out, None), ctx', w')"
      by blast
  qed
  show "\<forall>p. processVariables input ctx w i = Inl p
          \<longrightarrow> p = IntnInvalidArgument
              \<and> (\<exists>n. Placeholder n \<in> set (scan input) \<and> intn_rejects ctx n)"
  proof (intro allI impI)
    fix p
    assume panic: "processVariables input ctx w i = Inl p"
    then have "p = IntnInvalidArgument"
      by (rule processVariables_panic)
    moreover from panic returns have "\<exists>n. Placeholder n \<in> set (scan input) \<and> intn_rejects ctx n"
      by auto
    ultimately show "p = IntnInvalidArgument
              \<and> (\<exists>n. Placeholder n \<in> set (scan input) \<and> intn_rejects ctx n)"
      by blast
  qed
next
  show "\<forall>ex. executeRequest io config reqIdx varCtx w0 = Inr ex
          \<longrightarrow> taken ex \<noteq> VariableErrorURL \<and> taken ex \<noteq> VariableErrorBody"
    by (auto simp: executeRequest_def dest!: perform_taken processVariables_error_None
        split: if_splits option.splits sum.splits prod.splits)
qed

theorem processVariables_error_always_nil_witness:
  "scan (URL post_config)
     = map Lit ''http://localhost/users/'' @ [Placeholder ''id'']
   \<and> \<not> intn_rejects (context_of []) ''id''
   \<and> (\<exists>out ctx' w'. processVariables (URL post_config) (context_of []) world0 3
                       = Inr ((out, None), ctx', w'))
   \<and> executeRequest io0 post_config 3 (Some (context_of [])) world0 = Inr post_executed
   \<and> taken post_executed \<noteq> VariableErrorURL \<and> taken post_executed \<noteq> VariableErrorBody"
proof -
  have tokens: "scan (URL post_config)
     = map Lit ''http://localhost/users/'' @ [Placeholder ''id'']"
    by (simp add: post_config_def match_here_def)
  have safe: "\<not> intn_rejects (context_of []) ''id''"
    by (simp add: intn_rejects_def builtin_def context_of_def)
  have h: "\<forall>n. Placeholder n \<in> set (scan (URL post_config)) \<longrightarrow> \<not> intn_rejects (context_of []) n"
    unfolding tokens using safe by auto
  from processVariables_error_always_nil [of "URL post_config" "context_of []" world0 3
      io0 post_config 3 "Some (context_of [])" world0] h post_example tokens safe
  show ?thesis
    by blast
qed

end
